theory Spec2Isabelle
  imports Complex_Main
begin

section \<open>Marketplace backend: the product catalog over a document store\<close>

text \<open>
  A shallow embedding of \<^verbatim>\<open>main.py\<close>. The handlers \<^verbatim>\<open>test_database\<close>,
  \<^verbatim>\<open>seed_products\<close>, \<^verbatim>\<open>list_products\<close> and \<^verbatim>\<open>featured_products\<close>
  are translated from the source. The modules \<^verbatim>\<open>database.py\<close> (the handle \<^verbatim>\<open>db\<close>,
  \<^verbatim>\<open>create_document\<close>, \<^verbatim>\<open>get_documents\<close>) and \<^verbatim>\<open>schemas.py\<close>
  (the class \<^verbatim>\<open>Product\<close>) are not part of the source tree; they are modelled
  from the specification, and each such definition says so.
\<close>

subsection \<open>Documents\<close>

text \<open>
  A stored value. Floats are modelled by the reals they denote (no NaN, no infinities):
  the handlers only compare them with \<open>\<le>\<close>. An ObjectId is a natural number.
\<close>

datatype bson =
    BStr string
  | BBool bool
  | BNum real
  | BOid nat
  | BArr "bson list"

text \<open>A document is a Python dict with string keys, kept in insertion order.\<close>

type_synonym document = "(string \<times> bson) list"

text \<open>\<^verbatim>\<open>d.pop(k, None)\<close>: the key is removed if present; the popped value is dropped.\<close>

definition pop :: "string \<Rightarrow> document \<Rightarrow> document" where
  "pop k d = filter (\<lambda>kv. fst kv \<noteq> k) d"

subsection \<open>The Product schema\<close>

record Product =
  title :: string
  description :: string
  price :: real
  category :: string
  in_stock :: bool
  image_url :: string
  brand :: string
  rating :: real
  tags :: "string list"
  featured :: bool

datatype error =
    HTTPException nat string
  | ValidationError
  | OperationFailure

fun str_of :: "bson option \<Rightarrow> string" where
  "str_of (Some (BStr s)) = s"
| "str_of _ = []"

fun num_of :: "bson option \<Rightarrow> real" where
  "num_of (Some (BNum x)) = x"
| "num_of _ = 0"

fun bool_of :: "bson option \<Rightarrow> bool" where
  "bool_of (Some (BBool b)) = b"
| "bool_of _ = False"

fun strs_of :: "bson option \<Rightarrow> string list" where
  "strs_of (Some (BArr xs)) = map (\<lambda>x. str_of (Some x)) xs"
| "strs_of _ = []"

fun is_str :: "bson option \<Rightarrow> bool" where
  "is_str (Some (BStr s)) = True"
| "is_str _ = False"

fun is_num :: "bson option \<Rightarrow> bool" where
  "is_num (Some (BNum x)) = True"
| "is_num _ = False"

fun is_bool :: "bson option \<Rightarrow> bool" where
  "is_bool (Some (BBool b)) = True"
| "is_bool _ = False"

fun is_strs :: "bson option \<Rightarrow> bool" where
  "is_strs (Some (BArr xs)) = list_all (\<lambda>x. is_str (Some x)) xs"
| "is_strs _ = False"

text \<open>
  Modelled from the spec: the class \<^verbatim>\<open>Product\<close> of \<^verbatim>\<open>schemas.py\<close>, which is
  not in the source tree. The data model of the specification gives the fields and their
  constraints: title, description, image_url and brand are text, price is a non-negative
  decimal, category is one of women, men, home, in_stock and featured are booleans, rating
  is a decimal between 0 and 5, tags is a sequence of text. \<open>fields_valid\<close> is the
  validation, \<open>as_Product\<close> the coercion of a dict that passed it.
\<close>

definition fields_valid :: "document \<Rightarrow> bool" where
  "fields_valid d \<longleftrightarrow>
     is_str (map_of d ''title'') \<and>
     is_str (map_of d ''description'') \<and>
     is_num (map_of d ''price'') \<and> 0 \<le> num_of (map_of d ''price'') \<and>
     is_str (map_of d ''category'') \<and>
     List.member [''women'', ''men'', ''home''] (str_of (map_of d ''category'')) \<and>
     is_bool (map_of d ''in_stock'') \<and>
     is_str (map_of d ''image_url'') \<and>
     is_str (map_of d ''brand'') \<and>
     is_num (map_of d ''rating'') \<and>
     0 \<le> num_of (map_of d ''rating'') \<and> num_of (map_of d ''rating'') \<le> 5 \<and>
     is_strs (map_of d ''tags'') \<and>
     is_bool (map_of d ''featured'')"

definition as_Product :: "document \<Rightarrow> Product" where
  "as_Product d =
     \<lparr> title = str_of (map_of d ''title''),
       description = str_of (map_of d ''description''),
       price = num_of (map_of d ''price''),
       category = str_of (map_of d ''category''),
       in_stock = bool_of (map_of d ''in_stock''),
       image_url = str_of (map_of d ''image_url''),
       brand = str_of (map_of d ''brand''),
       rating = num_of (map_of d ''rating''),
       tags = strs_of (map_of d ''tags''),
       featured = bool_of (map_of d ''featured'') \<rparr>"

text \<open>\<^verbatim>\<open>Product(**d)\<close>: raises a validation error, or builds the product.\<close>

definition Product_of :: "document \<Rightarrow> error + Product" where
  "Product_of d = (if fields_valid d then Inr (as_Product d) else Inl ValidationError)"

text \<open>
  Modelled from the spec: the transport schema of a product, the JSON object that
  \<^verbatim>\<open>response_model=List[Product]\<close> sends for one item. It has the fields of
  \<^verbatim>\<open>Product\<close> (declared in \<^verbatim>\<open>schemas.py\<close>, not in the source tree).
\<close>

definition Product_json :: "Product \<Rightarrow> document" where
  "Product_json p =
     [(''title'', BStr (title p)),
      (''description'', BStr (description p)),
      (''price'', BNum (price p)),
      (''category'', BStr (category p)),
      (''in_stock'', BBool (in_stock p)),
      (''image_url'', BStr (image_url p)),
      (''brand'', BStr (brand p)),
      (''rating'', BNum (rating p)),
      (''tags'', BArr (map BStr (tags p))),
      (''featured'', BBool (featured p))]"

subsection \<open>Query filters\<close>

text \<open>
  The filter dicts that the handlers build. An operator dict such as
  \<^verbatim>\<open>{"$gte": a, "$lte": b}\<close> is the list of its operators;
  \<^verbatim>\<open>{"$regex": q, "$options": "i"}\<close> is the one operator \<open>Regex q ''i''\<close>.
  A top-level entry is a field with its condition, or \<^verbatim>\<open>"$or"\<close> with a list of
  sub-filters.
\<close>

datatype op =
    Gte real
  | Lte real
  | Regex string string
  | In "bson list"

datatype cond =
    Eq bson
  | Ops "op list"

datatype clause =
    Field string cond
  | Or "(string \<times> cond) list list"

text \<open>
  The regular-expression engine of the store: a pattern and its options compile to a
  search predicate on strings, or the pattern is rejected (\<open>None\<close>). The engine is not
  code of this repository; it is a component of the store, and the handlers are verified
  for every engine.
\<close>

type_synonym regex_engine = "string \<Rightarrow> string \<Rightarrow> (string \<Rightarrow> bool) option"

text \<open>
  How the store matches a document against a filter. A condition on a field is tried on
  the field's value and, when the value is an array, on each of its elements; every
  operator of an operator dict must hold, every entry of a filter must hold, and one
  alternative of \<^verbatim>\<open>$or\<close> must hold.
\<close>

fun candidates :: "bson option \<Rightarrow> bson list" where
  "candidates None = []"
| "candidates (Some (BArr xs)) = BArr xs # xs"
| "candidates (Some x) = [x]"

fun test_op :: "regex_engine \<Rightarrow> op \<Rightarrow> bson \<Rightarrow> bool" where
  "test_op rx (Gte a) (BNum p) = (a \<le> p)"
| "test_op rx (Lte b) (BNum p) = (p \<le> b)"
| "test_op rx (Regex pat opts) (BStr s) = (case rx pat opts of Some m \<Rightarrow> m s | None \<Rightarrow> False)"
| "test_op rx (In vs) x = List.member vs x"
| "test_op rx _ _ = False"

fun cond_holds :: "regex_engine \<Rightarrow> bson option \<Rightarrow> cond \<Rightarrow> bool" where
  "cond_holds rx fv (Eq v) = list_ex (\<lambda>x. x = v) (candidates fv)"
| "cond_holds rx fv (Ops ops) = list_all (\<lambda>x. list_ex (test_op rx x) (candidates fv)) ops"

fun clause_holds :: "regex_engine \<Rightarrow> document \<Rightarrow> clause \<Rightarrow> bool" where
  "clause_holds rx d (Field k c) = cond_holds rx (map_of d k) c"
| "clause_holds rx d (Or alts) =
     list_ex (\<lambda>alt. list_all (\<lambda>kc. cond_holds rx (map_of d (fst kc)) (snd kc)) alt) alts"

definition matches :: "regex_engine \<Rightarrow> clause list \<Rightarrow> document \<Rightarrow> bool" where
  "matches rx f d = list_all (clause_holds rx d) f"

text \<open>A filter is accepted by the store when each of its patterns compiles.\<close>

fun op_ok :: "regex_engine \<Rightarrow> op \<Rightarrow> bool" where
  "op_ok rx (Regex pat opts) = (rx pat opts \<noteq> None)"
| "op_ok rx _ = True"

fun cond_ok :: "regex_engine \<Rightarrow> cond \<Rightarrow> bool" where
  "cond_ok rx (Eq v) = True"
| "cond_ok rx (Ops ops) = list_all (op_ok rx) ops"

fun clause_ok :: "regex_engine \<Rightarrow> clause \<Rightarrow> bool" where
  "clause_ok rx (Field k c) = cond_ok rx c"
| "clause_ok rx (Or alts) = list_all (list_all (\<lambda>kc. cond_ok rx (snd kc))) alts"

subsection \<open>The store\<close>

datatype store_op =
    Count_Documents string "clause list"
  | Find string "clause list" "nat option"
  | Insert_One string document
  | List_Collection_Names

text \<open>
  The process-wide state the handlers see: whether the handle \<^verbatim>\<open>db\<close> is set
  (\<open>configured\<close>), the collections of the store by name (\<open>store w ''product''\<close> is
  \<^verbatim>\<open>db["product"]\<close>), the next identity the store assigns, what \<^verbatim>\<open>db.name\<close> and
  \<^verbatim>\<open>db.list_collection_names()\<close> answer (\<open>Inl\<close> is an exception with its message,
  \<open>Inr None\<close> a handle without the attribute), the environment variable
  \<^verbatim>\<open>DATABASE_URL\<close>, the store's regular-expression engine, and the log of the
  operations sent to the store.
\<close>

record world =
  configured :: bool
  store :: "string \<Rightarrow> document list"
  next_oid :: nat
  name_attr :: "string + string option"
  collection_names :: "string + string list"
  env_database_url :: "string option"
  regex :: regex_engine
  oplog :: "store_op list"

definition log_op :: "store_op \<Rightarrow> world \<Rightarrow> world" where
  "log_op x w = w\<lparr>oplog := oplog w @ [x]\<rparr>"

text \<open>\<^verbatim>\<open>db[c].count_documents(f)\<close>\<close>

definition count_documents :: "world \<Rightarrow> string \<Rightarrow> clause list \<Rightarrow> (error + nat) \<times> world" where
  "count_documents w c f =
     (if list_all (clause_ok (regex w)) f
      then Inr (length (filter (matches (regex w) f) (store w c)))
      else Inl OperationFailure,
      log_op (Count_Documents c f) w)"

text \<open>
  Modelled from the spec: \<^verbatim>\<open>get_documents\<close> of \<^verbatim>\<open>database.py\<close>, which is not
  in the source tree. It returns the documents of the collection that match the filter,
  in the store's order, at most \<open>limit\<close> of them when a limit is given. The store is
  taken to be reachable whenever the handle is set.
\<close>

definition get_documents ::
  "world \<Rightarrow> string \<Rightarrow> clause list \<Rightarrow> nat option \<Rightarrow> (error + document list) \<times> world" where
  "get_documents w c f limit =
     (if list_all (clause_ok (regex w)) f
      then Inr (let found = filter (matches (regex w) f) (store w c)
                in case limit of None \<Rightarrow> found | Some n \<Rightarrow> take n found)
      else Inl OperationFailure,
      log_op (Find c f limit) w)"

text \<open>
  Modelled from the spec: \<^verbatim>\<open>create_document\<close> of \<^verbatim>\<open>database.py\<close>, which is
  not in the source tree. It inserts the document at the end of the collection under an
  identity \<^verbatim>\<open>_id\<close> that the store assigns.
\<close>

definition create_document :: "world \<Rightarrow> string \<Rightarrow> document \<Rightarrow> world" where
  "create_document w c p =
     (let d = (''_id'', BOid (next_oid w)) # p
      in log_op (Insert_One c d)
           (w\<lparr>store := (store w)(c := store w c @ [d]),
              next_oid := Suc (next_oid w)\<rparr>))"

subsection \<open>The handlers\<close>

definition not_configured :: error where
  "not_configured = HTTPException 500 ''Database not configured''"

subsubsection \<open>\<^verbatim>\<open>GET /products\<close>\<close>

definition build_filters ::
  "string option \<Rightarrow> string option \<Rightarrow> bool option \<Rightarrow> real option \<Rightarrow> real option \<Rightarrow> clause list" where
  "build_filters category_q q featured_q min_price max_price =
     (case category_q of
        Some c \<Rightarrow> if c \<noteq> [] then [Field ''category'' (Eq (BStr c))] else []
      | None \<Rightarrow> []) @
     (case featured_q of
        Some b \<Rightarrow> [Field ''featured'' (Eq (BBool b))]
      | None \<Rightarrow> []) @
     (if min_price \<noteq> None \<or> max_price \<noteq> None
      then [Field ''price''
             (Ops ((case min_price of Some a \<Rightarrow> [Gte a] | None \<Rightarrow> []) @
                   (case max_price of Some b \<Rightarrow> [Lte b] | None \<Rightarrow> [])))]
      else []) @
     (case q of
        Some s \<Rightarrow>
          if s \<noteq> []
          then [Or [[(''title'', Ops [Regex s ''i''])],
                    [(''description'', Ops [Regex s ''i''])],
                    [(''tags'', Ops [In [BStr s]])]]]
          else []
      | None \<Rightarrow> [])"

text \<open>
  The loop \<^verbatim>\<open>for d in docs: d.pop("_id", None); products.append(Product(**d))\<close>.
  The first document that fails validation ends it with the error.
\<close>

fun coerce_all :: "document list \<Rightarrow> error + Product list" where
  "coerce_all [] = Inr []"
| "coerce_all (d # ds) =
     (case Product_of (pop ''_id'' d) of
        Inl e \<Rightarrow> Inl e
      | Inr p \<Rightarrow> (case coerce_all ds of Inl e \<Rightarrow> Inl e | Inr ps \<Rightarrow> Inr (p # ps)))"

definition list_products ::
  "world \<Rightarrow> string option \<Rightarrow> string option \<Rightarrow> bool option \<Rightarrow> real option \<Rightarrow> real option
     \<Rightarrow> (error + Product list) \<times> world" where
  "list_products w category_q q featured_q min_price max_price =
     (if \<not> configured w then (Inl not_configured, w)
      else
        case get_documents w ''product''
               (build_filters category_q q featured_q min_price max_price) None of
          (Inl e, w') \<Rightarrow> (Inl e, w')
        | (Inr docs, w') \<Rightarrow> (coerce_all docs, w'))"

subsubsection \<open>\<^verbatim>\<open>GET /products/featured\<close>\<close>

definition featured_products :: "world \<Rightarrow> (error + Product list) \<times> world" where
  "featured_products w =
     (if \<not> configured w then (Inl not_configured, w)
      else
        case get_documents w ''product'' [Field ''featured'' (Eq (BBool True))] (Some 6) of
          (Inl e, w') \<Rightarrow> (Inl e, w')
        | (Inr docs, w') \<Rightarrow> (coerce_all docs, w'))"

subsubsection \<open>\<^verbatim>\<open>POST /seed\<close>\<close>

definition demo_products :: "document list" where
  "demo_products =
     [[(''title'', BStr ''Velvet Rose Eau de Parfum''),
       (''description'', BStr ''A lush floral fragrance with notes of rose, amber, and musk.''),
       (''price'', BNum 79),
       (''category'', BStr ''women''),
       (''in_stock'', BBool True),
       (''image_url'', BStr ''https://images.unsplash.com/photo-1523292562811-8fa7962a78c8''),
       (''brand'', BStr ''Aurelia''),
       (''rating'', BNum 4.7),
       (''tags'', BArr [BStr ''fragrance'', BStr ''perfume'', BStr ''floral'']),
       (''featured'', BBool True)],
      [(''title'', BStr ''Gentleman Grooming Kit''),
       (''description'', BStr ''Complete shaving and beard care kit with natural oils.''),
       (''price'', BNum 59),
       (''category'', BStr ''men''),
       (''in_stock'', BBool True),
       (''image_url'', BStr ''https://images.unsplash.com/photo-1600986603369-9d3d0f6f0f9b''),
       (''brand'', BStr ''NordCraft''),
       (''rating'', BNum 4.5),
       (''tags'', BArr [BStr ''grooming'', BStr ''kit'', BStr ''beard'']),
       (''featured'', BBool True)],
      [(''title'', BStr ''Ceramic Wave Vase''),
       (''description'', BStr ''Minimal wave-pattern vase to elevate any interior.''),
       (''price'', BNum 39),
       (''category'', BStr ''home''),
       (''in_stock'', BBool True),
       (''image_url'', BStr ''https://images.unsplash.com/photo-1523419409543-a7cf3f4e8d8f''),
       (''brand'', BStr ''Haven''),
       (''rating'', BNum 4.6),
       (''tags'', BArr [BStr ''decor'', BStr ''vase'', BStr ''ceramic'']),
       (''featured'', BBool False)],
      [(''title'', BStr ''Lavender Silk Body Lotion''),
       (''description'', BStr ''Ultra-hydrating lotion with calming lavender.''),
       (''price'', BNum 24),
       (''category'', BStr ''women''),
       (''in_stock'', BBool True),
       (''image_url'', BStr ''https://images.unsplash.com/photo-1585386959984-a41552231658''),
       (''brand'', BStr ''Serene''),
       (''rating'', BNum 4.4),
       (''tags'', BArr [BStr ''body'', BStr ''lotion'', BStr ''lavender'']),
       (''featured'', BBool False)],
      [(''title'', BStr ''Matte Stone Candle Holder''),
       (''description'', BStr ''Sculptural holder with a soft matte finish.''),
       (''price'', BNum 29),
       (''category'', BStr ''home''),
       (''in_stock'', BBool True),
       (''image_url'', BStr ''https://images.unsplash.com/photo-1519710164239-da123dc03ef4''),
       (''brand'', BStr ''Aura''),
       (''rating'', BNum 4.3),
       (''tags'', BArr [BStr ''decor'', BStr ''candle'']),
       (''featured'', BBool False)]]"

record seed_response =
  message :: string
  count :: nat

text \<open>The loop \<^verbatim>\<open>for p in demo_products: create_document("product", p)\<close>.\<close>

fun create_all :: "world \<Rightarrow> document list \<Rightarrow> world" where
  "create_all w [] = w"
| "create_all w (p # ps) = create_all (create_document w ''product'' p) ps"

definition seed_products :: "world \<Rightarrow> (error + seed_response) \<times> world" where
  "seed_products w =
     (if \<not> configured w then (Inl not_configured, w)
      else
        case count_documents w ''product'' [] of
          (Inl e, w') \<Rightarrow> (Inl e, w')
        | (Inr n, w') \<Rightarrow>
            if n > 0
            then (Inr \<lparr>message = ''Catalog already seeded'', count = n\<rparr>, w')
            else (Inr \<lparr>message = ''Catalog seeded'', count = length demo_products\<rparr>,
                  create_all w' demo_products))"

subsubsection \<open>\<^verbatim>\<open>GET /test\<close>\<close>

text \<open>
  The texts of the response carry signs outside ASCII, so each text is a constructor named
  after its words; \<open>Connected_But_Error m\<close> and \<open>Error_Text m\<close> stand for the fixed
  prefix followed by \<open>m\<close>.
\<close>

datatype backend_status = Running

datatype database_status =
    Not_Available
  | Available
  | Connected_And_Working
  | Connected_But_Error string
  | Available_But_Not_Initialized
  | Error_Text string

datatype url_status = Is_Set | Not_Set

datatype name_status = Name string | Connected_Name

record test_response =
  backend :: backend_status
  database :: database_status
  database_url :: "url_status option"
  database_name :: "name_status option"
  connection_status :: string
  collections :: "string list"

text \<open>\<^verbatim>\<open>db.list_collection_names()\<close>\<close>

definition list_collection_names :: "world \<Rightarrow> (string + string list) \<times> world" where
  "list_collection_names w = (collection_names w, log_op List_Collection_Names w)"

text \<open>
  Both \<^verbatim>\<open>try\<close> blocks are written out: an exception of \<^verbatim>\<open>db.name\<close> reaches the
  outer handler, one of \<^verbatim>\<open>db.list_collection_names()\<close> the inner one, and each
  handler keeps what the response held when the exception was raised.
  \<^verbatim>\<open>str(e)[:50]\<close> is \<open>take 50\<close> of the message.
\<close>

definition test_database :: "world \<Rightarrow> (error + test_response) \<times> world" where
  "test_database w =
     (let response = \<lparr>backend = Running, database = Not_Available, database_url = None,
                       database_name = None, connection_status = ''Not Connected'',
                       collections = []\<rparr>
      in if configured w
         then
           let response = response\<lparr>database := Available\<rparr>;
               response = response\<lparr>database_url :=
                            Some (case env_database_url w of
                                    Some u \<Rightarrow> if u \<noteq> [] then Is_Set else Not_Set
                                  | None \<Rightarrow> Not_Set)\<rparr>
           in (case name_attr w of
                Inl e \<Rightarrow> (Inr (response\<lparr>database := Error_Text (take 50 e)\<rparr>), w)
              | Inr nm \<Rightarrow>
                  let response = response\<lparr>database_name :=
                                   Some (case nm of Some n \<Rightarrow> Name n | None \<Rightarrow> Connected_Name)\<rparr>;
                      response = response\<lparr>connection_status := ''Connected''\<rparr>
                  in (case list_collection_names w of
                        (Inr cs, w') \<Rightarrow>
                          (Inr (response\<lparr>collections := take 10 cs,
                                          database := Connected_And_Working\<rparr>), w')
                      | (Inl e, w') \<Rightarrow>
                          (Inr (response\<lparr>database := Connected_But_Error (take 50 e)\<rparr>), w')))
         else (Inr (response\<lparr>database := Available_But_Not_Initialized\<rparr>), w))"

subsection \<open>What the specification says a query selects\<close>

text \<open>A document as the client sees it: \<^verbatim>\<open>_id\<close> popped, then coerced.\<close>

definition to_Product :: "document \<Rightarrow> Product" where
  "to_Product d = as_Product (pop ''_id'' d)"

definition valid_document :: "document \<Rightarrow> bool" where
  "valid_document d = fields_valid (pop ''_id'' d)"

text \<open>Case is folded on the letters of ASCII.\<close>

definition lower_char :: "char \<Rightarrow> char" where
  "lower_char c =
     (case map_of (zip ''ABCDEFGHIJKLMNOPQRSTUVWXYZ'' ''abcdefghijklmnopqrstuvwxyz'') c of
        Some l \<Rightarrow> l
      | None \<Rightarrow> c)"

fun starts_with :: "string \<Rightarrow> string \<Rightarrow> bool" where
  "starts_with [] s = True"
| "starts_with (c # cs) [] = False"
| "starts_with (c # cs) (x # xs) = (c = x \<and> starts_with cs xs)"

fun substring :: "string \<Rightarrow> string \<Rightarrow> bool" where
  "substring q [] = starts_with q []"
| "substring q (x # xs) = (starts_with q (x # xs) \<or> substring q xs)"

text \<open>The specification's case-insensitive substring match.\<close>

definition ci_substring :: "string \<Rightarrow> string \<Rightarrow> bool" where
  "ci_substring q s = substring (map lower_char q) (map lower_char s)"

text \<open>
  The specification's free-text match: a case-insensitive substring match against title
  or description, or an exact membership match against tags.
\<close>

definition spec_query_match :: "string \<Rightarrow> Product \<Rightarrow> bool" where
  "spec_query_match q p \<longleftrightarrow>
     ci_substring q (title p) \<or> ci_substring q (description p) \<or> List.member (tags p) q"

definition spec_query_result :: "string \<Rightarrow> document list \<Rightarrow> Product list" where
  "spec_query_result q docs = filter (spec_query_match q) (map to_Product docs)"

text \<open>The specification's price range, inclusive on both bounds; an absent bound is open.\<close>

definition spec_price_match :: "real option \<Rightarrow> real option \<Rightarrow> Product \<Rightarrow> bool" where
  "spec_price_match min_price max_price p \<longleftrightarrow>
     (case min_price of Some a \<Rightarrow> a \<le> price p | None \<Rightarrow> True) \<and>
     (case max_price of Some b \<Rightarrow> price p \<le> b | None \<Rightarrow> True)"

definition spec_price_result :: "real option \<Rightarrow> real option \<Rightarrow> document list \<Rightarrow> Product list" where
  "spec_price_result min_price max_price docs =
     filter (spec_price_match min_price max_price) (map to_Product docs)"

subsection \<open>A reference engine and sample states\<close>

text \<open>
  A regular-expression engine for the patterns made of ordinary characters and the
  wildcard \<^verbatim>\<open>.\<close> (any character but a line feed), searched anywhere in the subject,
  with case folded under the option \<^verbatim>\<open>i\<close>. A pattern that holds another
  metacharacter is outside this fragment, and the reference engine rejects it.
\<close>

definition metachars :: string where
  "metachars = [CHR 0x5C, CHR ''^'', CHR ''$'', CHR ''*'', CHR ''+'', CHR ''?'', CHR ''('',
                CHR '')'', CHR ''['', CHR '']'', CHR ''{'', CHR ''}'', CHR ''|'']"

definition char_match :: "bool \<Rightarrow> char \<Rightarrow> char \<Rightarrow> bool" where
  "char_match ci p c =
     (if p = CHR ''.'' then c \<noteq> CHR 0x0A
      else if ci then lower_char p = lower_char c
      else p = c)"

fun match_here :: "bool \<Rightarrow> string \<Rightarrow> string \<Rightarrow> bool" where
  "match_here ci [] s = True"
| "match_here ci (p # ps) [] = False"
| "match_here ci (p # ps) (c # cs) = (char_match ci p c \<and> match_here ci ps cs)"

fun search :: "bool \<Rightarrow> string \<Rightarrow> string \<Rightarrow> bool" where
  "search ci pat [] = match_here ci pat []"
| "search ci pat (c # cs) = (match_here ci pat (c # cs) \<or> search ci pat cs)"

definition reference_engine :: regex_engine where
  "reference_engine pat opts =
     (if list_ex (List.member metachars) pat then None
      else Some (search (List.member opts (CHR ''i'')) pat))"

definition doc_soap :: document where
  "doc_soap =
     [(''_id'', BOid 0),
      (''title'', BStr ''Rose Soap''),
      (''description'', BStr ''Mild''),
      (''price'', BNum 10),
      (''category'', BStr ''women''),
      (''in_stock'', BBool True),
      (''image_url'', BStr ''s.png''),
      (''brand'', BStr ''Aura''),
      (''rating'', BNum 4),
      (''tags'', BArr [BStr ''bath'']),
      (''featured'', BBool True)]"

definition doc_vase :: document where
  "doc_vase =
     [(''_id'', BOid 1),
      (''title'', BStr ''Vase''),
      (''description'', BStr ''Clay''),
      (''price'', BNum 39),
      (''category'', BStr ''home''),
      (''in_stock'', BBool True),
      (''image_url'', BStr ''v.png''),
      (''brand'', BStr ''Haven''),
      (''rating'', BNum 4.5),
      (''tags'', BArr [BStr ''decor'', BStr ''rose'']),
      (''featured'', BBool False)]"

definition sample_store :: "string \<Rightarrow> document list" where
  "sample_store c = (if c = ''product'' then [doc_soap, doc_vase] else [])"

definition sample_world :: world where
  "sample_world =
     \<lparr>configured = True, store = sample_store, next_oid = 2,
      name_attr = Inr (Some ''shop''), collection_names = Inr [''product''],
      env_database_url = Some ''mongodb://localhost'', regex = reference_engine,
      oplog = []\<rparr>"

definition empty_world :: world where
  "empty_world = sample_world\<lparr>store := (\<lambda>c. []), next_oid := 0\<rparr>"

definition unconfigured_world :: world where
  "unconfigured_world = sample_world\<lparr>configured := False\<rparr>"

definition long_message :: string where
  "long_message = replicate 60 (CHR ''x'')"

definition failing_world :: world where
  "failing_world = sample_world\<lparr>collection_names := Inl long_message\<rparr>"

section \<open>Properties\<close>

subsection \<open>Frame lemmas of the store operations\<close>

lemma get_documents_store:
  "get_documents w c f l = (r, w') \<Longrightarrow> store w' = store w"
  by (auto simp: get_documents_def log_op_def)

lemma list_collection_names_store:
  "list_collection_names w = (r, w') \<Longrightarrow> store w' = store w"
  by (auto simp: list_collection_names_def log_op_def)

subsection \<open>The unconfigured store\<close>

text \<open>
  Claim C6. When the handle \<^verbatim>\<open>db\<close> is absent, each of \<^verbatim>\<open>seed_products\<close>,
  \<^verbatim>\<open>list_products\<close> and \<^verbatim>\<open>featured_products\<close> fails with the HTTP error of status
  500 and the fixed detail "Database not configured", and the state is returned as it was:
  no collection is touched and the log of store operations gains no entry.
\<close>

theorem unconfigured_fails_without_store_operation:
  "\<not> configured w \<Longrightarrow>
     seed_products w = (Inl (HTTPException 500 ''Database not configured''), w) \<and>
     list_products w category_q q featured_q min_price max_price =
       (Inl (HTTPException 500 ''Database not configured''), w) \<and>
     featured_products w = (Inl (HTTPException 500 ''Database not configured''), w)"
  by (simp add: seed_products_def list_products_def featured_products_def not_configured_def)

theorem unconfigured_fails_witness:
  "\<not> configured unconfigured_world \<and>
   seed_products unconfigured_world =
     (Inl (HTTPException 500 ''Database not configured''), unconfigured_world) \<and>
   list_products unconfigured_world (Some ''home'') (Some ''vase'') (Some True) (Some 1) (Some 2) =
     (Inl (HTTPException 500 ''Database not configured''), unconfigured_world) \<and>
   featured_products unconfigured_world =
     (Inl (HTTPException 500 ''Database not configured''), unconfigured_world)"
proof -
  have h: "\<not> configured unconfigured_world"
    by (simp add: unconfigured_world_def sample_world_def)
  show ?thesis
    using h unconfigured_fails_without_store_operation
            [OF h, of "Some ''home''" "Some ''vase''" "Some True" "Some 1" "Some 2"]
    by simp
qed

subsection \<open>The diagnostics never fail\<close>

text \<open>
  Claim C7. \<^verbatim>\<open>test_database\<close> returns a response in every state, whatever
  \<^verbatim>\<open>db.name\<close> and \<^verbatim>\<open>db.list_collection_names()\<close> do. An exception of either is
  reported in the field \<^verbatim>\<open>database\<close> as the first 50 characters of its message, so
  the reported text has at most 50 characters, and the field \<^verbatim>\<open>collections\<close> holds
  at most 10 names.
\<close>

theorem test_database_never_raises:
  "\<exists>r. fst (test_database w) = Inr r \<and>
       length (collections r) \<le> 10 \<and>
       (\<forall>m. database r = Connected_But_Error m \<or> database r = Error_Text m
            \<longrightarrow> length m \<le> 50) \<and>
       (\<forall>e. configured w \<and> name_attr w = Inl e \<longrightarrow> database r = Error_Text (take 50 e)) \<and>
       (\<forall>e nm. configured w \<and> name_attr w = Inr nm \<and> collection_names w = Inl e \<longrightarrow>
           database r = Connected_But_Error (take 50 e))"
  by (auto simp: test_database_def Let_def list_collection_names_def
           split: prod.splits sum.splits)

theorem test_database_never_raises_witness:
  "configured failing_world \<and>
   name_attr failing_world = Inr (Some ''shop'') \<and>
   collection_names failing_world = Inl long_message \<and>
   length long_message = 60 \<and>
   (\<exists>r. fst (test_database failing_world) = Inr r \<and>
        database r = Connected_But_Error (replicate 50 (CHR ''x'')) \<and>
        length (replicate 50 (CHR ''x'')) \<le> 50 \<and>
        length (collections r) \<le> 10)"
proof -
  have h: "configured failing_world \<and> name_attr failing_world = Inr (Some ''shop'') \<and>
           collection_names failing_world = Inl long_message"
    by (simp add: failing_world_def sample_world_def)
  have t: "take 50 long_message = replicate 50 (CHR ''x'')"
    by (simp add: long_message_def)
  from test_database_never_raises [of failing_world]
  obtain r where r: "fst (test_database failing_world) = Inr r"
    "length (collections r) \<le> 10"
    "\<forall>e nm. configured failing_world \<and> name_attr failing_world = Inr nm \<and>
        collection_names failing_world = Inl e \<longrightarrow>
        database r = Connected_But_Error (take 50 e)"
    by blast
  from r(3) h have "database r = Connected_But_Error (take 50 long_message)"
    by blast
  with r(1,2) t h show ?thesis
    by (auto simp: long_message_def)
qed

subsection \<open>Reads leave the store as it was\<close>

text \<open>
  Claim C9. \<^verbatim>\<open>list_products\<close>, \<^verbatim>\<open>featured_products\<close> and \<^verbatim>\<open>test_database\<close>
  leave every collection of the store, the product collection among them, unchanged, for
  every input and every state.
\<close>

theorem reads_leave_store_unchanged:
  "store (snd (list_products w category_q q featured_q min_price max_price)) = store w \<and>
   store (snd (featured_products w)) = store w \<and>
   store (snd (test_database w)) = store w"
proof (intro conjI)
  show "store (snd (list_products w category_q q featured_q min_price max_price)) = store w"
    by (auto simp: list_products_def split: prod.splits sum.splits dest: get_documents_store)
  show "store (snd (featured_products w)) = store w"
    by (auto simp: featured_products_def split: prod.splits sum.splits dest: get_documents_store)
  show "store (snd (test_database w)) = store w"
    by (auto simp: test_database_def Let_def split: prod.splits sum.splits
             dest: list_collection_names_store)
qed

theorem reads_leave_store_unchanged_witness:
  "store (snd (list_products sample_world None (Some ''rose'') None None None)) ''product'' =
     [doc_soap, doc_vase] \<and>
   store (snd (featured_products sample_world)) ''product'' = [doc_soap, doc_vase] \<and>
   store (snd (test_database sample_world)) ''product'' = [doc_soap, doc_vase]"
  using reads_leave_store_unchanged [of sample_world None "Some ''rose''" None None None]
  by (simp add: sample_world_def sample_store_def)

end
